theory Spec2Isabelle
  imports Main
begin

section \<open>JavaScript values\<close>

text \<open>
  Request bodies, query strings, provider payloads and the session all hold JavaScript
  values, and none of them holds a function. Strings are represented by their UTF-8 bytes
  (well-formed strings only). A number is represented by the string the runtime prints it
  as (\<open>Number.prototype.toString\<close>: the shortest decimal form that reads back, such as
  \<open>30\<close>, \<open>-4\<close>, \<open>1.5\<close> or \<open>1e+21\<close>, and \<open>NaN\<close>, \<open>Infinity\<close>, \<open>-Infinity\<close>);
  both zeros print as \<open>0\<close>. The handlers never calculate with a number: they test it
  for truth, print it, or pass it on. An object is the list of its own properties, keys
  distinct, in the order the engine enumerates them.
\<close>

datatype jsval =
    JUndefined
  | JNull
  | JBool bool
  | JNum string
  | JStr string
  | JArr "jsval list"
  | JObj "(string \<times> jsval) list"

text \<open>
  ToBoolean, as used by \<open>||\<close>, \<open>!\<close> and \<open>if\<close>. The falsy numbers are the zeros and
  NaN.
\<close>

fun js_truthy :: "jsval \<Rightarrow> bool" where
  "js_truthy JUndefined = False"
| "js_truthy JNull = False"
| "js_truthy (JBool b) = b"
| "js_truthy (JNum n) = (n \<noteq> ''0'' \<and> n \<noteq> ''NaN'')"
| "js_truthy (JStr s) = (s \<noteq> [])"
| "js_truthy (JArr xs) = True"
| "js_truthy (JObj kvs) = True"

text \<open>\<open>a || b\<close>: the left operand when it is truthy, else the right one.\<close>

definition js_or :: "jsval \<Rightarrow> jsval \<Rightarrow> jsval" where
  "js_or a b = (if js_truthy a then a else b)"

text \<open>
  Reading a property that is not a method: \<open>o.k\<close> where \<open>o\<close> is neither null nor
  undefined. Only objects carry the keys the handlers read; on every other value the
  lookup gives undefined.
\<close>

fun js_get :: "jsval \<Rightarrow> string \<Rightarrow> jsval" where
  "js_get (JObj kvs) k = (case map_of kvs k of Some v \<Rightarrow> v | None \<Rightarrow> JUndefined)"
| "js_get v k = JUndefined"

text \<open>A destructuring default \<open>{ k = d }\<close> applies only when the property is undefined.\<close>

definition js_default :: "jsval \<Rightarrow> jsval \<Rightarrow> jsval" where
  "js_default v d = (if v = JUndefined then d else v)"

text \<open>A value read from \<open>process.env\<close>: a string, or undefined when the key is unset.\<close>

definition env_val :: "string option \<Rightarrow> jsval" where
  "env_val e = (case e of None \<Rightarrow> JUndefined | Some s \<Rightarrow> JStr s)"

subsection \<open>Decimal and hexadecimal digits\<close>

text \<open>
  \<open>decimal\<close> prints a status code, a natural number of three digits, where the client
  library puts it into its message.
\<close>

definition digit_char :: "nat \<Rightarrow> char" where
  "digit_char d = ''0123456789ABCDEF'' ! d"

function decimal :: "nat \<Rightarrow> string" where
  "decimal n = (if n < 10 then [digit_char n] else decimal (n div 10) @ [digit_char (n mod 10)])"
  by pat_completeness auto
termination
  by (relation "measure id") auto

declare decimal.simps [simp del]

fun intercalate :: "string \<Rightarrow> string list \<Rightarrow> string" where
  "intercalate sep [] = []"
| "intercalate sep [x] = x"
| "intercalate sep (x # y # zs) = x @ sep @ intercalate sep (y # zs)"

text \<open>
  ToString, as applied by a template literal, and by \<open>.toString()\<close> on a value that is
  neither null nor undefined. An array joins its elements with commas, null and undefined
  elements printing as nothing. An object prints as a fixed tag through the \<open>toString\<close>
  it inherits; when it has a property \<open>toString\<close> of its own, that property is data and
  not a function, and the conversion throws a TypeError: the result is \<open>None\<close>.
\<close>

fun js_to_string :: "jsval \<Rightarrow> string option" where
  "js_to_string JUndefined = Some ''undefined''"
| "js_to_string JNull = Some ''null''"
| "js_to_string (JBool b) = Some (if b then ''true'' else ''false'')"
| "js_to_string (JNum n) = Some n"
| "js_to_string (JStr s) = Some s"
| "js_to_string (JArr xs) =
     map_option (intercalate '','')
       (those (map (\<lambda>x. if x = JUndefined \<or> x = JNull then Some [] else js_to_string x) xs))"
| "js_to_string (JObj kvs) =
     (if map_of kvs ''toString'' = None then Some ''[object Object]'' else None)"

subsection \<open>Encoders of the runtime\<close>

text \<open>
  \<open>Buffer.from(s).toString('base64')\<close>: the standard alphabet with padding, over the
  UTF-8 bytes of the string (which is how strings are represented here).
\<close>

definition b64_char :: "nat \<Rightarrow> char" where
  "b64_char n = ''ABCDEFGHIJKLMNOPQRSTUVWXYZabcdefghijklmnopqrstuvwxyz0123456789+/'' ! n"

fun base64_bytes :: "nat list \<Rightarrow> string" where
  "base64_bytes [] = []"
| "base64_bytes [a] =
     [b64_char (a div 4), b64_char ((a mod 4) * 16), CHR ''='', CHR ''='']"
| "base64_bytes [a, b] =
     [b64_char (a div 4), b64_char ((a mod 4) * 16 + b div 16),
      b64_char ((b mod 16) * 4), CHR ''='']"
| "base64_bytes (a # b # c # rest) =
     [b64_char (a div 4), b64_char ((a mod 4) * 16 + b div 16),
      b64_char ((b mod 16) * 4 + c div 64), b64_char (c mod 64)] @ base64_bytes rest"

definition base64 :: "string \<Rightarrow> string" where
  "base64 s = base64_bytes (map of_char s)"

definition percent_byte :: "char \<Rightarrow> string" where
  "percent_byte c = [CHR ''%'', digit_char (of_char c div 16), digit_char (of_char c mod 16)]"

definition alphanumeric :: "char \<Rightarrow> bool" where
  "alphanumeric c \<longleftrightarrow>
     c \<in> set ''ABCDEFGHIJKLMNOPQRSTUVWXYZabcdefghijklmnopqrstuvwxyz0123456789''"

text \<open>\<open>encodeURIComponent\<close>: every byte is escaped but the unreserved marks.\<close>

definition encodeURIComponent :: "string \<Rightarrow> string" where
  "encodeURIComponent s =
     concat (map (\<lambda>c. if alphanumeric c \<or> c \<in> set ''-_.!~*'' \<or> c = CHR 0x27 \<or> c \<in> set ''()''
                       then [c] else percent_byte c) s)"

text \<open>
  The serializer of \<open>URLSearchParams\<close> (application/x-www-form-urlencoded): a space
  becomes a plus sign, and fewer marks are left alone than by \<open>encodeURIComponent\<close>.
\<close>

definition form_encode :: "string \<Rightarrow> string" where
  "form_encode s =
     concat (map (\<lambda>c. if alphanumeric c \<or> c \<in> set ''*-._'' then [c]
                       else if c = CHR '' '' then ''+'' else percent_byte c) s)"

definition form_urlencoded :: "(string \<times> string) list \<Rightarrow> string" where
  "form_urlencoded kvs = intercalate ''&'' (map (\<lambda>(k, v). form_encode k @ ''='' @ form_encode v) kvs)"

text \<open>
  \<open>JSON.stringify\<close>, as a template literal prints its result: a finite number prints
  as the runtime prints it and any other number as null, properties that are undefined are
  left out, undefined array elements print as null, and for undefined itself the result
  is undefined, printed as that word.
\<close>

definition json_escape :: "char \<Rightarrow> string" where
  "json_escape c =
     (if c = CHR 0x22 then [CHR 0x5C, CHR 0x22]
      else if c = CHR 0x5C then [CHR 0x5C, CHR 0x5C]
      else if c = CHR 0x08 then [CHR 0x5C, CHR ''b'']
      else if c = CHR 0x0C then [CHR 0x5C, CHR ''f'']
      else if c = CHR 0x0A then [CHR 0x5C, CHR ''n'']
      else if c = CHR 0x0D then [CHR 0x5C, CHR ''r'']
      else if c = CHR 0x09 then [CHR 0x5C, CHR ''t'']
      else if (of_char c :: nat) < 32
        then [CHR 0x5C, CHR ''u'', CHR ''0'', CHR ''0'',
              ''0123456789abcdef'' ! (of_char c div 16), ''0123456789abcdef'' ! (of_char c mod 16)]
      else [c])"

definition json_quote :: "string \<Rightarrow> string" where
  "json_quote s = [CHR 0x22] @ concat (map json_escape s) @ [CHR 0x22]"

fun JSON_stringify :: "jsval \<Rightarrow> string" where
  "JSON_stringify JUndefined = ''undefined''"
| "JSON_stringify JNull = ''null''"
| "JSON_stringify (JBool b) = (if b then ''true'' else ''false'')"
| "JSON_stringify (JNum n) = (if n \<in> {''NaN'', ''Infinity'', ''-Infinity''} then ''null'' else n)"
| "JSON_stringify (JStr s) = json_quote s"
| "JSON_stringify (JArr xs) =
     ''['' @ intercalate '','' (map (\<lambda>x. if x = JUndefined then ''null'' else JSON_stringify x) xs) @ '']''"
| "JSON_stringify (JObj kvs) =
     ''{'' @ intercalate '',''
        (map (\<lambda>(k, v). json_quote k @ '':'' @ JSON_stringify v)
             (filter (\<lambda>(k, v). v \<noteq> JUndefined) kvs)) @ ''}''"

section \<open>Requests, responses and the provider\<close>

text \<open>
  \<open>process.env\<close>, restricted to the keys the handlers read. Each is a string when set.
\<close>

record process_env =
  ZOOM_S2S_CLIENT_ID :: "string option"
  ZOOM_S2S_CLIENT_SECRET :: "string option"
  ZOOM_S2S_ACCOUNT_ID :: "string option"
  ZOOM_OAUTH_CLIENT_ID :: "string option"
  ZOOM_OAUTH_CLIENT_SECRET :: "string option"
  ZOOM_OAUTH_REDIRECT_URI :: "string option"
  ZOOM_OAUTH_SCOPE :: "string option"

text \<open>What a handler hands to \<open>axios.post(url, data, {headers})\<close>.\<close>

datatype payload = NoData | JsonData jsval | FormData "(string \<times> string) list"

record http_request =
  req_url :: string
  req_data :: payload
  req_headers :: "(string \<times> string) list"

text \<open>
  What comes back for one request on the wire: a response with its status (the three
  digits of the status line), its headers (names in lower case, as the runtime hands them
  over) and its (parsed) body; or no response, and the client library reports an error
  with a message.
\<close>

datatype outcome = HttpResponse nat "(string \<times> string) list" jsval | NoResponse string

text \<open>
  The world outside, as one \<open>axios.post\<close> sees it. \<open>answer net rq 0\<close> is what comes back
  for the call \<open>rq\<close> itself, and \<open>answer net rq k\<close>, for \<open>k\<close> from 1 on, what comes back
  from where the \<open>k\<close>-th redirect of that call led (how the client library builds the
  request it sends there is its own affair, and no handler sees it). \<open>maxRedirects\<close> is
  the number of redirects the client library follows; server.js passes none, so it is the
  library's default.
\<close>

record network =
  maxRedirects :: nat
  answer :: "http_request \<Rightarrow> nat \<Rightarrow> outcome"

text \<open>
  The client library does not hand a redirect on: a response with a status from 300 to
  399 and a non-empty Location header is followed.
\<close>

definition redirects :: "nat \<Rightarrow> (string \<times> string) list \<Rightarrow> bool" where
  "redirects st hs \<longleftrightarrow>
     300 \<le> st \<and> st < 400 \<and> (case map_of hs ''location'' of None \<Rightarrow> False | Some l \<Rightarrow> l \<noteq> [])"

text \<open>
  \<open>follow ans n k\<close>: the response the exchange ends in, from hop \<open>k\<close> on and with \<open>n\<close>
  redirects still allowed. One redirect more than allowed is an error without a response.
\<close>

primrec follow :: "(nat \<Rightarrow> outcome) \<Rightarrow> nat \<Rightarrow> nat \<Rightarrow> outcome" where
  "follow ans 0 k =
     (case ans k of
        HttpResponse st hs d \<Rightarrow>
          if redirects st hs then NoResponse ''Maximum number of redirects exceeded''
          else HttpResponse st hs d
      | NoResponse m \<Rightarrow> NoResponse m)"
| "follow ans (Suc n) k =
     (case ans k of
        HttpResponse st hs d \<Rightarrow>
          if redirects st hs then follow ans n (Suc k) else HttpResponse st hs d
      | NoResponse m \<Rightarrow> NoResponse m)"

text \<open>
  What one call ends in. With \<open>maxRedirects\<close> zero the library follows nothing and the
  first response is the end, whatever its status.
\<close>

definition exchange :: "network \<Rightarrow> http_request \<Rightarrow> outcome" where
  "exchange net rq =
     (if maxRedirects net = 0 then answer net rq 0
      else follow (answer net rq) (maxRedirects net) 0)"

text \<open>
  The error object a \<open>catch\<close> block receives: \<open>err.response\<close> (status and data, when
  the exchange ended in a response) and \<open>err.message\<close>.
\<close>

datatype js_error = JsError (err_response: "(nat \<times> jsval) option") (err_message: string)

text \<open>
  \<open>await axios.post(...)\<close>: resolves with the data of the response the exchange ends in
  when its status is from 200 to 299, and throws otherwise. One call, whatever the
  outcome.
\<close>

definition axios_post :: "network \<Rightarrow> http_request \<Rightarrow> js_error + jsval" where
  "axios_post net rq =
     (case exchange net rq of
        HttpResponse st hs d \<Rightarrow>
          if 200 \<le> st \<and> st < 300 then Inr d
          else Inl (JsError (Some (st, d)) (''Request failed with status code '' @ decimal st))
      | NoResponse m \<Rightarrow> Inl (JsError None m))"

text \<open>
  What a handler does with \<open>res\<close>: \<open>res.status(st).json(body)\<close> (\<open>res.json\<close> alone is
  status 200), \<open>res.status(st).send(text)\<close>, or \<open>res.redirect(location)\<close>, which is status
  302. A handler that throws with no \<open>catch\<close> around leaves the answer to the
  framework's error handler: status 500.
\<close>

datatype response =
    Json nat jsval
  | Send nat string
  | Redirect nat string
  | Uncaught

text \<open>The session of \<open>cookie-session\<close>: the two keys the handlers store.\<close>

record oauth_config =
  clientId :: string
  clientSecret :: string
  redirectUri :: string
  scope :: string

record session =
  oauthConfig :: "oauth_config option"
  oauthTokens :: jsval

definition new_session :: session where
  "new_session = \<lparr>oauthConfig = None, oauthTokens = JUndefined\<rparr>"

text \<open>
  The \<open>catch\<close> blocks: \<open>err.response?.status\<close>, \<open>err.response?.data\<close>,
  \<open>status || 500\<close> and \<open>data || err.message\<close>.
\<close>

definition err_status :: "js_error \<Rightarrow> nat" where
  "err_status e = (case err_response e of None \<Rightarrow> 500 | Some (st, d) \<Rightarrow> if st = 0 then 500 else st)"

definition err_details :: "js_error \<Rightarrow> jsval" where
  "err_details e =
     js_or (case err_response e of None \<Rightarrow> JUndefined | Some (st, d) \<Rightarrow> d) (JStr (err_message e))"

text \<open>
  A TypeError raised by the runtime has no \<open>response\<close>; its message is the engine's
  (here the wording of V8).
\<close>

definition TypeError :: "string \<Rightarrow> js_error" where
  "TypeError m = JsError None m"

definition not_primitive :: js_error where
  "not_primitive = TypeError ''Cannot convert object to primitive value''"

definition nullish :: "jsval \<Rightarrow> bool" where
  "nullish v \<longleftrightarrow> v = JUndefined \<or> v = JNull"

section \<open>The handlers\<close>

text \<open>
  Each handler is a function of the environment, of the world outside that answers its
  calls, of the request's body or query, and of the session; it gives the response,
  the session as it leaves it, and the calls it made through \<open>axios.post\<close>, in order
  (the handlers reach the provider in no other way). The handlers also write to the log
  (\<open>console.info\<close>, \<open>console.error\<close>); no handler reads the log, and it is left out.
\<close>

text \<open>
  \<open>buildBasicAuthHeader\<close>: the template literal converts both arguments to strings, and
  throws (\<open>None\<close>) when one of them cannot be converted.
\<close>

definition buildBasicAuthHeader :: "jsval \<Rightarrow> jsval \<Rightarrow> string option" where
  "buildBasicAuthHeader cid csecret =
     (case js_to_string cid of
        None \<Rightarrow> None
      | Some i \<Rightarrow>
          (case js_to_string csecret of
             None \<Rightarrow> None
           | Some s \<Rightarrow> (let encoded = base64 (i @ '':'' @ s) in Some (''Basic '' @ encoded))))"

text \<open>The body of a create-meeting call, the same in both flows.\<close>

definition meeting_payload :: "jsval \<Rightarrow> jsval" where
  "meeting_payload body =
     JObj [(''topic'', js_default (js_get body ''topic'') (JStr ''Test Meeting'')),
           (''type'', JNum ''2''),
           (''duration'', js_default (js_get body ''duration'') (JNum ''30'')),
           (''start_time'', js_get body ''start_time''),
           (''timezone'', js_get body ''timezone''),
           (''settings'', JObj [(''join_before_host'', JBool False), (''waiting_room'', JBool True)])]"

definition meeting_result :: "string \<Rightarrow> jsval \<Rightarrow> jsval" where
  "meeting_result method d =
     JObj [(''method'', JStr method),
           (''meeting_id'', js_get d ''id''),
           (''password'', js_get d ''password''),
           (''host_link'', js_get d ''start_url''),
           (''join_link'', js_get d ''join_url'')]"

subsection \<open>POST /api/s2s/meetings\<close>

text \<open>Lines 121 to 123: each credential is the body's field, or else the environment's.\<close>

definition s2s_credentials :: "process_env \<Rightarrow> jsval \<Rightarrow> jsval \<times> jsval \<times> jsval" where
  "s2s_credentials env body =
     (js_or (js_get body ''clientId'') (env_val (ZOOM_S2S_CLIENT_ID env)),
      js_or (js_get body ''clientSecret'') (env_val (ZOOM_S2S_CLIENT_SECRET env)),
      js_or (js_get body ''accountId'') (env_val (ZOOM_S2S_ACCOUNT_ID env)))"

definition s2s_missing :: response where
  "s2s_missing = Json 400 (JObj [(''error'',
     JStr ''Missing Zoom S2S credentials (clientId, clientSecret, accountId). Provide in body or environment.'')])"

definition s2s_catch :: "js_error \<Rightarrow> response" where
  "s2s_catch e = Json (err_status e)
     (JObj [(''error'', JStr ''Failed to create meeting via S2S''), (''details'', err_details e)])"

definition s2s_token_request :: "string \<Rightarrow> string \<Rightarrow> http_request" where
  "s2s_token_request header account =
     \<lparr>req_url = ''https://zoom.us/oauth/token?grant_type=account_credentials&account_id=''
                  @ encodeURIComponent account,
      req_data = NoData,
      req_headers = [(''Authorization'', header)]\<rparr>"

definition s2s_meeting_request :: "string \<Rightarrow> jsval \<Rightarrow> http_request" where
  "s2s_meeting_request accessToken body =
     \<lparr>req_url = ''https://api.zoom.us/v2/users/me/meetings'',
      req_data = JsonData (meeting_payload body),
      req_headers = [(''Authorization'', ''Bearer '' @ accessToken),
                     (''Content-Type'', ''application/json'')]\<rparr>"

text \<open>
  The handler gives its response, the session as it leaves it, and the calls it made
  through \<open>axios.post\<close>, in order. \<open>req.body || {}\<close> comes first. An account id that is
  truthy but not a string makes \<open>accountId.substring\<close> throw, and a credential or an
  access token that cannot be converted to a string makes the template literal throw,
  each before the call it was meant for; every throw lands in the \<open>catch\<close>.
\<close>

definition s2s_meetings ::
  "process_env \<Rightarrow> network \<Rightarrow> jsval \<Rightarrow> session \<Rightarrow> response \<times> session \<times> http_request list" where
  "s2s_meetings env net req_body sess =
     (let body = js_or req_body (JObj []);
          (cid, csecret, accountId) = s2s_credentials env body
      in if \<not> js_truthy cid \<or> \<not> js_truthy csecret \<or> \<not> js_truthy accountId
         then (s2s_missing, sess, [])
         else case accountId of
           JStr account \<Rightarrow>
             (case buildBasicAuthHeader cid csecret of
                None \<Rightarrow> (s2s_catch not_primitive, sess, [])
              | Some header \<Rightarrow>
                 (let rq1 = s2s_token_request header account
                  in case axios_post net rq1 of
                       Inl e \<Rightarrow> (s2s_catch e, sess, [rq1])
                     | Inr tokenData \<Rightarrow>
                         if nullish tokenData
                         then (s2s_catch (TypeError (''Cannot read properties of ''
                                 @ (if tokenData = JNull then ''null'' else ''undefined'')
                                 @ '' (reading 'access_token')'')), sess, [rq1])
                         else
                           (case js_to_string (js_get tokenData ''access_token'') of
                              None \<Rightarrow> (s2s_catch not_primitive, sess, [rq1])
                            | Some accessToken \<Rightarrow>
                               (let rq2 = s2s_meeting_request accessToken body
                                in case axios_post net rq2 of
                                     Inl e \<Rightarrow> (s2s_catch e, sess, [rq1, rq2])
                                   | Inr d \<Rightarrow>
                                       if nullish d
                                       then (s2s_catch (TypeError
                                               (''Cannot destructure property 'start_url' of 'createResp.data' as it is ''
                                                @ (if d = JNull then ''null'' else ''undefined'') @ ''.'')),
                                             sess, [rq1, rq2])
                                       else (Json 200 (meeting_result ''s2s'' d), sess, [rq1, rq2])))))
         | _ \<Rightarrow> (s2s_catch (TypeError ''accountId.substring is not a function''), sess, []))"

subsection \<open>GET /auth/login\<close>

text \<open>
  Each setting is \<open>(query.k || process.env.K || d).toString()\<close>: a string whatever the
  query held, unless the conversion throws (\<open>None\<close>).
\<close>

definition login_setting :: "jsval \<Rightarrow> string option \<Rightarrow> string \<Rightarrow> string option" where
  "login_setting q e d = js_to_string (js_or (js_or q (env_val e)) (JStr d))"

definition login_config :: "process_env \<Rightarrow> jsval \<Rightarrow> oauth_config option" where
  "login_config env query =
     (case login_setting (js_get query ''client_id'') (ZOOM_OAUTH_CLIENT_ID env) [] of
        None \<Rightarrow> None
      | Some cid \<Rightarrow>
     (case login_setting (js_get query ''client_secret'') (ZOOM_OAUTH_CLIENT_SECRET env) [] of
        None \<Rightarrow> None
      | Some csecret \<Rightarrow>
     (case login_setting (js_get query ''redirect_uri'') (ZOOM_OAUTH_REDIRECT_URI env) [] of
        None \<Rightarrow> None
      | Some uri \<Rightarrow>
     (case login_setting (js_get query ''scope'') (ZOOM_OAUTH_SCOPE env) ''meeting:write'' of
        None \<Rightarrow> None
      | Some sc \<Rightarrow>
          Some \<lparr>clientId = cid, clientSecret = csecret, redirectUri = uri, scope = sc\<rparr>))))"

definition authorize_params :: "oauth_config \<Rightarrow> (string \<times> string) list" where
  "authorize_params cfg =
     [(''response_type'', ''code''),
      (''client_id'', clientId cfg),
      (''redirect_uri'', redirectUri cfg),
      (''scope'', scope cfg)]"

definition authorize_url :: "oauth_config \<Rightarrow> string" where
  "authorize_url cfg = ''https://zoom.us/oauth/authorize?'' @ form_urlencoded (authorize_params cfg)"

definition login_missing :: response where
  "login_missing = Json 400 (JObj [(''error'',
     JStr ''Missing OAuth config (client_id, client_secret, redirect_uri).'')])"

text \<open>This handler has no \<open>try\<close>: a conversion that throws is not caught.\<close>

definition auth_login ::
  "process_env \<Rightarrow> network \<Rightarrow> jsval \<Rightarrow> session \<Rightarrow> response \<times> session \<times> http_request list" where
  "auth_login env net req_query sess =
     (let query = js_or req_query (JObj [])
      in case login_config env query of
           None \<Rightarrow> (Uncaught, sess, [])
         | Some cfg \<Rightarrow>
             if clientId cfg = [] \<or> clientSecret cfg = [] \<or> redirectUri cfg = []
             then (login_missing, sess, [])
             else (Redirect 302 (authorize_url cfg), sess\<lparr>oauthConfig := Some cfg\<rparr>, []))"

text \<open>
  The scope of a login whose query has none: \<open>process.env.ZOOM_OAUTH_SCOPE || 'meeting:write'\<close>.
\<close>

definition configured_scope :: "process_env \<Rightarrow> string" where
  "configured_scope env = (case ZOOM_OAUTH_SCOPE env of None \<Rightarrow> ''meeting:write''
                           | Some s \<Rightarrow> if s = [] then ''meeting:write'' else s)"

subsection \<open>GET /auth/callback\<close>

definition callback_token_request :: "oauth_config \<Rightarrow> string \<Rightarrow> string \<Rightarrow> http_request" where
  "callback_token_request cfg header code =
     \<lparr>req_url = ''https://zoom.us/oauth/token'',
      req_data = FormData [(''grant_type'', ''authorization_code''),
                           (''code'', code),
                           (''redirect_uri'', redirectUri cfg)],
      req_headers = [(''Authorization'', header),
                     (''Content-Type'', ''application/x-www-form-urlencoded'')]\<rparr>"

definition callback_missing :: response where
  "callback_missing = Send 400 ''Missing session config or code''"

definition callback_success :: response where
  "callback_success = Redirect 302 ''/?oauth=success''"

definition callback_catch :: "js_error \<Rightarrow> response" where
  "callback_catch e = Send (err_status e) (''OAuth callback error: '' @ JSON_stringify (err_details e))"

text \<open>
  \<open>code.toString()\<close> is evaluated before the header is built; the configuration's client
  id and secret are strings, as login stored them.
\<close>

definition auth_callback ::
  "process_env \<Rightarrow> network \<Rightarrow> jsval \<Rightarrow> session \<Rightarrow> response \<times> session \<times> http_request list" where
  "auth_callback env net req_query sess =
     (if nullish req_query
      then (callback_catch (TypeError (''Cannot destructure property 'code' of 'req.query' as it is ''
                                       @ (if req_query = JNull then ''null'' else ''undefined'') @ ''.'')),
            sess, [])
      else
        (let code = js_get req_query ''code''
         in case oauthConfig sess of
              None \<Rightarrow> (callback_missing, sess, [])
            | Some cfg \<Rightarrow>
                if \<not> js_truthy code then (callback_missing, sess, [])
                else
                  (case js_to_string code of
                     None \<Rightarrow>
                       (callback_catch (case code of
                            JObj kvs \<Rightarrow> TypeError ''code.toString is not a function''
                          | _ \<Rightarrow> not_primitive), sess, [])
                   | Some c \<Rightarrow>
                      (case buildBasicAuthHeader (JStr (clientId cfg)) (JStr (clientSecret cfg)) of
                         None \<Rightarrow> (callback_catch not_primitive, sess, [])
                       | Some header \<Rightarrow>
                          (let rq = callback_token_request cfg header c
                           in case axios_post net rq of
                                Inl e \<Rightarrow> (callback_catch e, sess, [rq])
                              | Inr tokenData \<Rightarrow>
                                  (callback_success, sess\<lparr>oauthTokens := tokenData\<rparr>, [rq]))))))"

subsection \<open>POST /api/oauth/meetings\<close>

definition unauthenticated :: response where
  "unauthenticated = Json 401 (JObj [(''error'', JStr ''Not authenticated. Start with /auth/login'')])"

definition oauth_catch :: "js_error \<Rightarrow> response" where
  "oauth_catch e = Json (err_status e)
     (JObj [(''error'', JStr ''Failed to create meeting via OAuth''), (''details'', err_details e)])"

definition oauth_meeting_request :: "string \<Rightarrow> jsval \<Rightarrow> http_request" where
  "oauth_meeting_request accessToken body =
     \<lparr>req_url = ''https://api.zoom.us/v2/users/me/meetings'',
      req_data = JsonData (meeting_payload body),
      req_headers = [(''Authorization'', ''Bearer '' @ accessToken)]\<rparr>"

text \<open>\<open>tokens?.access_token\<close>: undefined when nothing is stored.\<close>

definition stored_access_token :: "session \<Rightarrow> jsval" where
  "stored_access_token sess =
     (let tokens = oauthTokens sess
      in if nullish tokens then JUndefined else js_get tokens ''access_token'')"

definition oauth_meetings ::
  "process_env \<Rightarrow> network \<Rightarrow> jsval \<Rightarrow> session \<Rightarrow> response \<times> session \<times> http_request list" where
  "oauth_meetings env net req_body sess =
     (if \<not> js_truthy (stored_access_token sess) then (unauthenticated, sess, [])
      else
        (let body = js_or req_body (JObj [])
         in case js_to_string (stored_access_token sess) of
              None \<Rightarrow> (oauth_catch not_primitive, sess, [])
            | Some accessToken \<Rightarrow>
               (let rq = oauth_meeting_request accessToken body
                in case axios_post net rq of
                     Inl e \<Rightarrow> (oauth_catch e, sess, [rq])
                   | Inr d \<Rightarrow>
                       if nullish d
                       then (oauth_catch (TypeError
                               (''Cannot destructure property 'start_url' of 'createResp.data' as it is ''
                                @ (if d = JNull then ''null'' else ''undefined'') @ ''.'')), sess, [rq])
                       else (Json 200 (meeting_result ''oauth'' d), sess, [rq]))))"

subsection \<open>The routes, and a client's requests in sequence\<close>

datatype request =
    PostS2SMeetings jsval
  | GetAuthLogin jsval
  | GetAuthCallback jsval
  | PostOAuthMeetings jsval

fun handle ::
  "process_env \<Rightarrow> network \<Rightarrow> request \<Rightarrow> session \<Rightarrow> response \<times> session \<times> http_request list" where
  "handle env net (PostS2SMeetings body) sess = s2s_meetings env net body sess"
| "handle env net (GetAuthLogin query) sess = auth_login env net query sess"
| "handle env net (GetAuthCallback query) sess = auth_callback env net query sess"
| "handle env net (PostOAuthMeetings body) sess = oauth_meetings env net body sess"

fun is_login :: "request \<Rightarrow> bool" where
  "is_login (GetAuthLogin query) = True"
| "is_login r = False"

text \<open>
  One client's requests, one after the other, each with the provider as it behaves at that
  moment: the session each handler leaves is the one the next handler finds. The result is
  the final session and every response, in order.
\<close>

fun run :: "process_env \<Rightarrow> session \<Rightarrow> (request \<times> network) list \<Rightarrow> session \<times> response list" where
  "run env sess [] = (sess, [])"
| "run env sess ((r, net) # rest) =
     (case handle env net r sess of
        (resp, sess', calls) \<Rightarrow> (case run env sess' rest of (s, resps) \<Rightarrow> (s, resp # resps)))"

text \<open>Reading a call back: its Authorization header, and whether it goes to the token endpoint.\<close>

definition authorization :: "http_request \<Rightarrow> string option" where
  "authorization rq = map_of (req_headers rq) ''Authorization''"

definition token_endpoint :: string where
  "token_endpoint = ''https://zoom.us/oauth/token''"

definition is_token_call :: "http_request \<Rightarrow> bool" where
  "is_token_call rq \<longleftrightarrow> take (length token_endpoint) (req_url rq) = token_endpoint"

text \<open>Reading a response back: its status, and the details an error response carries.\<close>

fun status_of :: "response \<Rightarrow> nat" where
  "status_of (Json st b) = st"
| "status_of (Send st t) = st"
| "status_of (Redirect st l) = st"
| "status_of Uncaught = 500"

text \<open>
  Where an error response carries its details: under the key \<open>details\<close> of a JSON
  body, or stringified after the fixed prefix of the callback's text body.
\<close>

fun carries_details :: "response \<Rightarrow> jsval \<Rightarrow> bool" where
  "carries_details (Json st b) det = (js_get b ''details'' = det)"
| "carries_details (Send st t) det = (t = ''OAuth callback error: '' @ JSON_stringify det)"
| "carries_details r det = False"

section \<open>Example inputs\<close>

definition env_unset :: process_env where
  "env_unset = \<lparr>ZOOM_S2S_CLIENT_ID = None, ZOOM_S2S_CLIENT_SECRET = None, ZOOM_S2S_ACCOUNT_ID = None,
     ZOOM_OAUTH_CLIENT_ID = None, ZOOM_OAUTH_CLIENT_SECRET = None, ZOOM_OAUTH_REDIRECT_URI = None,
     ZOOM_OAUTH_SCOPE = None\<rparr>"


definition env_scoped :: process_env where
  "env_scoped = env_unset\<lparr>ZOOM_OAUTH_SCOPE := Some ''user:read''\<rparr>"

definition provider_down :: network where
  "provider_down = \<lparr>maxRedirects = 5, answer = (\<lambda>rq k. NoResponse ''connect ECONNREFUSED 127.0.0.1:443'')\<rparr>"

definition provider_rejects :: network where
  "provider_rejects = \<lparr>maxRedirects = 5, answer = (\<lambda>rq k.
     HttpResponse 401 [(''content-type'', ''application/json'')]
       (JObj [(''code'', JNum ''124''), (''message'', JStr ''Invalid access token.'')]))\<rparr>"

definition provider_rejects_empty :: network where
  "provider_rejects_empty = \<lparr>maxRedirects = 5, answer = (\<lambda>rq k. HttpResponse 401 [] (JStr []))\<rparr>"

definition provider_ok :: network where
  "provider_ok = \<lparr>maxRedirects = 5, answer = (\<lambda>rq k.
     if req_url rq = ''https://api.zoom.us/v2/users/me/meetings''
     then HttpResponse 201 [] (JObj [(''id'', JNum ''123456789''), (''password'', JStr ''pw''),
                                     (''start_url'', JStr ''https://zoom.us/s/1''),
                                     (''join_url'', JStr ''https://zoom.us/j/1'')])
     else HttpResponse 200 [] (JObj [(''access_token'', JStr ''tok''), (''expires_in'', JNum ''3600'')]))\<rparr>"

text \<open>A provider that answers every call with a redirect to a place that answers 200.\<close>

definition provider_moved :: network where
  "provider_moved = \<lparr>maxRedirects = 5, answer = (\<lambda>rq k.
     if k = 0 then HttpResponse 302 [(''location'', ''https://elsewhere.example/'')] (JStr [])
     else HttpResponse 200 [] (JObj [(''access_token'', JStr ''tok''), (''id'', JNum ''1'')]))\<rparr>"

definition body_abc :: jsval where
  "body_abc = JObj [(''clientId'', JStr ''abc''), (''clientSecret'', JStr ''xyz''), (''accountId'', JStr ''acct'')]"

definition body_secret_only :: jsval where
  "body_secret_only = JObj [(''clientId'', JStr []), (''clientSecret'', JStr ''xyz'')]"

definition query_abc :: jsval where
  "query_abc = JObj [(''client_id'', JStr ''abc''), (''client_secret'', JStr ''xyz''),
                     (''redirect_uri'', JStr ''http://localhost:3000/auth/callback'')]"

definition query_code :: jsval where
  "query_code = JObj [(''code'', JStr ''c0de'')]"

definition config_abc :: oauth_config where
  "config_abc = \<lparr>clientId = ''abc'', clientSecret = ''xyz'',
                  redirectUri = ''http://localhost:3000/auth/callback'', scope = ''meeting:write''\<rparr>"

definition session_stale :: session where
  "session_stale = \<lparr>oauthConfig = Some config_abc, oauthTokens = JObj [(''access_token'', JStr ''old'')]\<rparr>"

definition session_authenticated :: session where
  "session_authenticated = \<lparr>oauthConfig = Some config_abc,
     oauthTokens = JObj [(''access_token'', JStr ''tok''), (''expires_in'', JNum ''3600'')]\<rparr>"

definition query_other :: jsval where
  "query_other = JObj [(''client_id'', JStr ''first''), (''client_secret'', JStr ''s1''),
                       (''redirect_uri'', JStr ''http://localhost:3000/cb''), (''scope'', JStr ''user:read'')]"

section \<open>Test vectors for the encoders\<close>

lemma decimal_401: "decimal 401 = ''401''"
  by code_simp

lemma base64_abc_xyz: "base64 ''abc:xyz'' = ''YWJjOnh5eg==''"
  by (simp add: base64_def b64_char_def)

lemma base64_rfc4648:
  "base64 [] = []"
  "base64 ''f'' = ''Zg==''"
  "base64 ''fo'' = ''Zm8=''"
  "base64 ''foo'' = ''Zm9v''"
  "base64 ''foob'' = ''Zm9vYg==''"
  "base64 ''fooba'' = ''Zm9vYmE=''"
  "base64 ''foobar'' = ''Zm9vYmFy''"
  by code_simp+

lemma form_encode_ex: "form_encode ''http://localhost:3000/auth/callback'' = ''http%3A%2F%2Flocalhost%3A3000%2Fauth%2Fcallback''"
  by (simp add: form_encode_def alphanumeric_def percent_byte_def digit_char_def)

lemma encodeURIComponent_ex: "encodeURIComponent ''a b&c/d!~*()_-.'' = ''a%20b%26c%2Fd!~*()_-.''"
  by code_simp

lemma JSON_stringify_ex:
  "JSON_stringify (JObj [(''reason'', JStr ''Invalid''), (''n'', JNum ''-4''), (''u'', JUndefined),
                         (''a'', JArr [JNull, JUndefined, JBool True])])
     = [CHR ''{'', CHR 0x22] @ ''reason'' @ [CHR 0x22, CHR '':'', CHR 0x22] @ ''Invalid'' @ [CHR 0x22, CHR '','', CHR 0x22]
       @ ''n'' @ [CHR 0x22] @ '':-4,'' @ [CHR 0x22] @ ''a'' @ [CHR 0x22] @ '':[null,null,true]}''"
  by code_simp

lemma number_printing:
  "js_to_string (JNum ''1e+21'') = Some ''1e+21''"
  "buildBasicAuthHeader (JNum ''1e+21'') (JNum ''1.5'') = Some (''Basic '' @ base64 ''1e+21:1.5'')"
  "JSON_stringify (JArr [JNum ''1e+21'', JNum ''NaN'']) = ''[1e+21,null]''"
  "\<not> js_truthy (JNum ''0'')" "\<not> js_truthy (JNum ''NaN'')" "js_truthy (JNum ''-Infinity'')"
  by (simp_all add: buildBasicAuthHeader_def)

lemma js_to_string_ex:
  "js_to_string (JArr [JNum ''1'', JNull, JArr [JStr ''a'', JUndefined, JBool True], JObj []])
     = Some ''1,,a,,true,[object Object]''"
  "js_to_string (JArr [JNum ''1'', JObj [(''toString'', JNum ''1'')]]) = None"
  by code_simp+

section \<open>Credential merge of the machine grant\<close>




section \<open>What each handler does to the session\<close>

lemma s2s_meetings_frame:
  "s2s_meetings env net b sess =
     (fst (s2s_meetings env net b sess0), sess, snd (snd (s2s_meetings env net b sess0)))"
  by (simp add: s2s_meetings_def Let_def split: prod.splits jsval.splits sum.splits option.splits)

lemma oauth_meetings_session:
  "oauth_meetings env net b sess = (resp, sess', calls) \<Longrightarrow> sess' = sess"
  by (auto simp: oauth_meetings_def Let_def split: if_splits sum.splits option.splits)

lemma auth_login_tokens:
  "auth_login env net q sess = (resp, sess', calls) \<Longrightarrow> oauthTokens sess' = oauthTokens sess"
  by (auto simp: auth_login_def Let_def split: if_splits option.splits)

lemma callback_catch_not_success: "callback_catch e \<noteq> callback_success"
  by (simp add: callback_catch_def callback_success_def)

lemma buildBasicAuthHeader_strings:
  "buildBasicAuthHeader (JStr i) (JStr s) = Some (''Basic '' @ base64 (i @ '':'' @ s))"
  by (simp add: buildBasicAuthHeader_def)

text \<open>The callback, branch by branch.\<close>

lemma auth_callback_cases:
  assumes "auth_callback env net q sess = (resp, sess', calls)"
  obtains
    (rejected) "resp \<noteq> callback_success" "sess' = sess" "calls = []"
      "oauthConfig sess = None \<or> \<not> js_truthy (js_get q ''code'') \<or> js_to_string (js_get q ''code'') = None"
  | (failed) cfg c e where "oauthConfig sess = Some cfg" "js_truthy (js_get q ''code'')"
      "js_to_string (js_get q ''code'') = Some c"
      "calls = [callback_token_request cfg (''Basic '' @ base64 (clientId cfg @ '':'' @ clientSecret cfg)) c]"
      "axios_post net (callback_token_request cfg (''Basic '' @ base64 (clientId cfg @ '':'' @ clientSecret cfg)) c) = Inl e"
      "resp = callback_catch e" "sess' = sess"
  | (stored) cfg c d where "oauthConfig sess = Some cfg" "js_truthy (js_get q ''code'')"
      "js_to_string (js_get q ''code'') = Some c"
      "calls = [callback_token_request cfg (''Basic '' @ base64 (clientId cfg @ '':'' @ clientSecret cfg)) c]"
      "axios_post net (callback_token_request cfg (''Basic '' @ base64 (clientId cfg @ '':'' @ clientSecret cfg)) c) = Inr d"
      "resp = callback_success" "sess' = sess\<lparr>oauthTokens := d\<rparr>"
proof (cases "nullish q \<or> oauthConfig sess = None \<or> \<not> js_truthy (js_get q ''code'')
    \<or> js_to_string (js_get q ''code'') = None")
  case True
  with assms have "resp \<noteq> callback_success \<and> sess' = sess \<and> calls = []"
    by (auto simp: auth_callback_def Let_def callback_missing_def callback_success_def callback_catch_def
             split: if_splits option.splits)
  moreover from True have "oauthConfig sess = None \<or> \<not> js_truthy (js_get q ''code'')
      \<or> js_to_string (js_get q ''code'') = None"
    by (cases q) (auto simp: nullish_def)
  ultimately show ?thesis using rejected by blast
next
  case False
  then obtain cfg c where h: "\<not> nullish q" "oauthConfig sess = Some cfg" "js_truthy (js_get q ''code'')"
    "js_to_string (js_get q ''code'') = Some c" by auto
  let ?rq = "callback_token_request cfg (''Basic '' @ base64 (clientId cfg @ '':'' @ clientSecret cfg)) c"
  show ?thesis
  proof (cases "axios_post net ?rq")
    case (Inl e)
    with assms h have "calls = [?rq]" "resp = callback_catch e" "sess' = sess"
      by (simp_all add: auth_callback_def Let_def buildBasicAuthHeader_strings)
    with h Inl failed show ?thesis by blast
  next
    case (Inr d)
    with assms h have "calls = [?rq]" "resp = callback_success" "sess' = sess\<lparr>oauthTokens := d\<rparr>"
      by (simp_all add: auth_callback_def Let_def buildBasicAuthHeader_strings)
    with h Inr stored show ?thesis by blast
  qed
qed

lemma auth_callback_failure:
  "auth_callback env net q sess = (resp, sess', calls) \<Longrightarrow> resp \<noteq> callback_success \<Longrightarrow> sess' = sess"
  by (erule auth_callback_cases) auto

lemma handle_tokens:
  assumes "handle env net r sess = (resp, sess', calls)"
    and "is_login r \<or> resp \<noteq> callback_success"
  shows "oauthTokens sess' = oauthTokens sess"
proof (cases r)
  case (PostS2SMeetings b)
  with assms(1) s2s_meetings_frame [of env net b sess sess] show ?thesis by simp
next
  case (GetAuthLogin q)
  with assms(1) show ?thesis by (simp add: auth_login_tokens)
next
  case (GetAuthCallback q)
  with assms show ?thesis by (auto dest: auth_callback_failure)
next
  case (PostOAuthMeetings b)
  with assms(1) show ?thesis by (auto dest: oauth_meetings_session)
qed

text \<open>
  The stored tokens survive any run of requests in which no callback answered with its
  success redirect; a run of logins is such a run.
\<close>

lemma run_tokens:
  "run env sess evs = (sess', resps) \<Longrightarrow>
   (\<forall>ev \<in> set evs. is_login (fst ev)) \<or> callback_success \<notin> set resps \<Longrightarrow>
   oauthTokens sess' = oauthTokens sess"
proof (induction evs arbitrary: sess sess' resps)
  case Nil
  then show ?case by simp
next
  case (Cons ev evs)
  obtain r net where ev: "ev = (r, net)" by (cases ev)
  obtain resp s1 calls where h: "handle env net r sess = (resp, s1, calls)"
    by (cases "handle env net r sess")
  obtain s2 rs where rest: "run env s1 evs = (s2, rs)" by (cases "run env s1 evs")
  from Cons.prems(1) ev h rest have eq: "sess' = s2" "resps = resp # rs" by simp_all
  from Cons.prems(2) ev eq have here: "is_login r \<or> resp \<noteq> callback_success"
    and later: "(\<forall>ev \<in> set evs. is_login (fst ev)) \<or> callback_success \<notin> set rs" by auto
  from Cons.IH [OF rest later] handle_tokens [OF h here] eq show ?case by simp
qed

section \<open>Ordering of the user grant\<close>

text \<open>
  C2. Take a session that stores no tokens, and any sequence of requests of that session
  (logins, callbacks, meeting requests of either flow, each with the provider behaving in
  any way) in which no callback has answered with its success redirect; in particular any
  number of logins and nothing else. Then POST /api/oauth/meetings answers 401 with the
  not-authenticated error, whatever its body and whatever the provider would do, makes no
  call, and leaves the session as it is.
\<close>

theorem meeting_needs_callback:
  assumes "oauthTokens sess = JUndefined"
    and "run env sess evs = (sess', resps)"
    and "(\<forall>ev \<in> set evs. is_login (fst ev)) \<or> callback_success \<notin> set resps"
  shows "oauth_meetings env net body sess' = (unauthenticated, sess', [])"
proof -
  from run_tokens [OF assms(2,3)] assms(1) have "oauthTokens sess' = JUndefined" by simp
  then show ?thesis by (simp add: oauth_meetings_def stored_access_token_def nullish_def)
qed

theorem meeting_needs_callback_witness:
  "run env_unset new_session
        [(GetAuthLogin query_abc, provider_ok), (GetAuthCallback query_code, provider_rejects),
         (GetAuthLogin query_abc, provider_down)]
      = (new_session\<lparr>oauthConfig := Some config_abc\<rparr>,
         [Redirect 302 (authorize_url config_abc),
          Send 401 (''OAuth callback error: '' @ JSON_stringify
             (JObj [(''code'', JNum ''124''), (''message'', JStr ''Invalid access token.'')])),
          Redirect 302 (authorize_url config_abc)])
   \<and> oauth_meetings env_unset provider_ok JUndefined (new_session\<lparr>oauthConfig := Some config_abc\<rparr>)
      = (unauthenticated, new_session\<lparr>oauthConfig := Some config_abc\<rparr>, [])"
proof -
  have r: "run env_unset new_session
        [(GetAuthLogin query_abc, provider_ok), (GetAuthCallback query_code, provider_rejects),
         (GetAuthLogin query_abc, provider_down)]
      = (new_session\<lparr>oauthConfig := Some config_abc\<rparr>,
         [Redirect 302 (authorize_url config_abc),
          Send 401 (''OAuth callback error: '' @ JSON_stringify
             (JObj [(''code'', JNum ''124''), (''message'', JStr ''Invalid access token.'')])),
          Redirect 302 (authorize_url config_abc)])"
    by code_simp
  have t: "oauthTokens new_session = JUndefined" by (simp add: new_session_def)
  have n: "(\<forall>ev \<in> set [(GetAuthLogin query_abc, provider_ok), (GetAuthCallback query_code, provider_rejects),
         (GetAuthLogin query_abc, provider_down)]. is_login (fst ev))
     \<or> callback_success \<notin> set [Redirect 302 (authorize_url config_abc),
          Send 401 (''OAuth callback error: '' @ JSON_stringify
             (JObj [(''code'', JNum ''124''), (''message'', JStr ''Invalid access token.'')])),
          Redirect 302 (authorize_url config_abc)]"
    by (simp add: callback_success_def authorize_url_def)
  from meeting_needs_callback [OF t r n] r show ?thesis by blast
qed

section \<open>The callback\<close>

text \<open>
  C6. When the session stores no OAuth configuration, GET /auth/callback answers 400 with
  the text "Missing session config or code", whatever the query holds, makes no call to
  the provider (no token exchange), and leaves the session as it found it.
\<close>

theorem callback_without_config:
  "oauthConfig sess = None \<Longrightarrow>
   auth_callback env net (JObj kvs) sess = (Send 400 ''Missing session config or code'', sess, [])"
  by (simp add: auth_callback_def nullish_def callback_missing_def)

theorem callback_without_config_witness:
  "auth_callback env_unset provider_ok query_code new_session
     = (Send 400 ''Missing session config or code'', new_session, [])"
proof -
  have "oauthConfig new_session = None" by (simp add: new_session_def)
  from callback_without_config [OF this, of env_unset provider_ok "[(''code'', JStr ''c0de'')]"]
  show ?thesis by (simp add: query_code_def)
qed

text \<open>
  C10. The callback changes the session only together with its success redirect. Whenever
  it answers anything else the session is the one it found; a missing configuration, a
  missing code and a failed token exchange are such cases, and leave the stored tokens and
  the stored configuration as they were. When the session does change, the token exchange
  was the one call made, it succeeded, and the only change is that the tokens are now the
  data the provider returned.
\<close>

theorem callback_atomic:
  assumes "auth_callback env net q sess = (resp, sess', calls)"
  shows "(resp \<noteq> callback_success \<longrightarrow> sess' = sess)
       \<and> (oauthConfig sess = None \<or> \<not> js_truthy (js_get q ''code'')
            \<or> (\<exists>cfg c e. oauthConfig sess = Some cfg \<and> js_to_string (js_get q ''code'') = Some c
                 \<and> axios_post net (callback_token_request cfg
                       (''Basic '' @ base64 (clientId cfg @ '':'' @ clientSecret cfg)) c) = Inl e)
          \<longrightarrow> resp \<noteq> callback_success
              \<and> oauthTokens sess' = oauthTokens sess \<and> oauthConfig sess' = oauthConfig sess)
       \<and> (sess' \<noteq> sess \<longrightarrow>
            (\<exists>cfg c d. oauthConfig sess = Some cfg \<and> js_to_string (js_get q ''code'') = Some c
               \<and> calls = [callback_token_request cfg
                       (''Basic '' @ base64 (clientId cfg @ '':'' @ clientSecret cfg)) c]
               \<and> axios_post net (callback_token_request cfg
                       (''Basic '' @ base64 (clientId cfg @ '':'' @ clientSecret cfg)) c) = Inr d
               \<and> sess' = sess\<lparr>oauthTokens := d\<rparr>))"
  using assms
proof (cases rule: auth_callback_cases)
  case rejected
  then show ?thesis by simp
next
  case (failed cfg c e)
  then show ?thesis using callback_catch_not_success by simp
next
  case (stored cfg c d)
  then show ?thesis by auto
qed

theorem callback_atomic_witness:
  "auth_callback env_unset provider_rejects_empty query_code session_stale
     = (Send 401 (''OAuth callback error: '' @ JSON_stringify (JStr ''Request failed with status code 401'')),
        session_stale, [callback_token_request config_abc ''Basic YWJjOnh5eg=='' ''c0de''])
   \<and> Send 401 (''OAuth callback error: '' @ JSON_stringify (JStr ''Request failed with status code 401''))
       \<noteq> callback_success
   \<and> auth_callback env_unset provider_ok query_code session_stale
     = (callback_success, session_authenticated, [callback_token_request config_abc ''Basic YWJjOnh5eg=='' ''c0de''])
   \<and> session_authenticated \<noteq> session_stale
   \<and> (\<exists>cfg c d. oauthConfig session_stale = Some cfg \<and> js_to_string (js_get query_code ''code'') = Some c
         \<and> axios_post provider_ok (callback_token_request cfg
               (''Basic '' @ base64 (clientId cfg @ '':'' @ clientSecret cfg)) c) = Inr d
         \<and> session_authenticated = session_stale\<lparr>oauthTokens := d\<rparr>)"
proof -
  have h: "auth_callback env_unset provider_rejects_empty query_code session_stale
     = (Send 401 (''OAuth callback error: '' @ JSON_stringify (JStr ''Request failed with status code 401'')),
        session_stale, [callback_token_request config_abc ''Basic YWJjOnh5eg=='' ''c0de''])"
    by code_simp
  have k: "auth_callback env_unset provider_ok query_code session_stale
     = (callback_success, session_authenticated, [callback_token_request config_abc ''Basic YWJjOnh5eg=='' ''c0de''])"
    by code_simp
  have ne: "session_authenticated \<noteq> session_stale"
    by (simp add: session_authenticated_def session_stale_def)
  have f: "Send 401 (''OAuth callback error: '' @ JSON_stringify (JStr ''Request failed with status code 401''))
       \<noteq> callback_success"
    by (simp add: callback_success_def)
  from callback_atomic [OF h] f have "session_stale = session_stale" by blast
  from callback_atomic [OF k] ne
  have "\<exists>cfg c d. oauthConfig session_stale = Some cfg \<and> js_to_string (js_get query_code ''code'') = Some c
         \<and> axios_post provider_ok (callback_token_request cfg
               (''Basic '' @ base64 (clientId cfg @ '':'' @ clientSecret cfg)) c) = Inr d
         \<and> session_authenticated = session_stale\<lparr>oauthTokens := d\<rparr>"
    by blast
  with h k ne f show ?thesis by blast
qed

section \<open>The machine grant keeps to itself\<close>

text \<open>
  C9. The handler of POST /api/s2s/meetings returns the session it was given, and its
  response and its calls to the provider are the ones it gives on a fresh session: they
  are a function of the request body, the environment and the provider's answers to this
  request's own calls, and of nothing stored. So two such requests of one client, in
  either order, each get the response they get alone, and the session is untouched.
\<close>

theorem s2s_self_contained:
  "s2s_meetings env net body sess
     = (fst (s2s_meetings env net body new_session), sess, snd (snd (s2s_meetings env net body new_session)))
   \<and> run env sess [(PostS2SMeetings b1, net1), (PostS2SMeetings b2, net2)]
     = (sess, [fst (s2s_meetings env net1 b1 new_session), fst (s2s_meetings env net2 b2 new_session)])
   \<and> run env sess [(PostS2SMeetings b2, net2), (PostS2SMeetings b1, net1)]
     = (sess, [fst (s2s_meetings env net2 b2 new_session), fst (s2s_meetings env net1 b1 new_session)])"
proof -
  have one: "s2s_meetings env n b s
     = (fst (s2s_meetings env n b new_session), s, snd (snd (s2s_meetings env n b new_session)))" for n b s
    by (rule s2s_meetings_frame)
  have two: "run env sess [(PostS2SMeetings x, n), (PostS2SMeetings y, m)]
     = (sess, [fst (s2s_meetings env n x new_session), fst (s2s_meetings env m y new_session)])" for x y n m
    using one [of n x sess] one [of m y sess] by (simp split: prod.splits)
  from one two show ?thesis by blast
qed

theorem s2s_self_contained_witness:
  "run env_unset session_authenticated
       [(PostS2SMeetings body_abc, provider_ok), (PostS2SMeetings body_secret_only, provider_rejects)]
     = (session_authenticated,
        [Json 200 (meeting_result ''s2s'' (JObj [(''id'', JNum ''123456789''), (''password'', JStr ''pw''),
                                   (''start_url'', JStr ''https://zoom.us/s/1''),
                                   (''join_url'', JStr ''https://zoom.us/j/1'')])),
         s2s_missing])
   \<and> run env_unset session_authenticated
       [(PostS2SMeetings body_secret_only, provider_rejects), (PostS2SMeetings body_abc, provider_ok)]
     = (session_authenticated,
        [s2s_missing,
         Json 200 (meeting_result ''s2s'' (JObj [(''id'', JNum ''123456789''), (''password'', JStr ''pw''),
                                   (''start_url'', JStr ''https://zoom.us/s/1''),
                                   (''join_url'', JStr ''https://zoom.us/j/1'')]))])"
proof -
  have h1: "fst (s2s_meetings env_unset provider_ok body_abc new_session)
     = Json 200 (meeting_result ''s2s'' (JObj [(''id'', JNum ''123456789''), (''password'', JStr ''pw''),
                                   (''start_url'', JStr ''https://zoom.us/s/1''),
                                   (''join_url'', JStr ''https://zoom.us/j/1'')]))"
    by code_simp
  have h2: "fst (s2s_meetings env_unset provider_rejects body_secret_only new_session) = s2s_missing"
    by code_simp
  from s2s_self_contained [of env_unset provider_ok body_abc session_authenticated body_abc provider_ok
      body_secret_only provider_rejects]
  show ?thesis unfolding h1 h2 by blast
qed

section \<open>Session puts\<close>

lemma auth_login_complete:
  assumes "login_config env (js_or q (JObj [])) = Some cfg"
    and "clientId cfg \<noteq> []" "clientSecret cfg \<noteq> []" "redirectUri cfg \<noteq> []"
  shows "auth_login env net q sess = (Redirect 302 (authorize_url cfg), sess\<lparr>oauthConfig := Some cfg\<rparr>, [])"
  using assms by (simp add: auth_login_def Let_def)

lemma auth_login_incomplete:
  assumes "login_config env (js_or q (JObj [])) = Some cfg"
    and "clientId cfg = [] \<or> clientSecret cfg = [] \<or> redirectUri cfg = []"
  shows "auth_login env net q sess = (login_missing, sess, [])"
  using assms by (auto simp add: auth_login_def Let_def)

lemma auth_callback_success:
  assumes "oauthConfig sess = Some cfg" "js_truthy (js_get q ''code'')"
    and "js_to_string (js_get q ''code'') = Some c"
    and "axios_post net (callback_token_request cfg
            (''Basic '' @ base64 (clientId cfg @ '':'' @ clientSecret cfg)) c) = Inr d"
  shows "auth_callback env net q sess
       = (callback_success, sess\<lparr>oauthTokens := d\<rparr>,
          [callback_token_request cfg (''Basic '' @ base64 (clientId cfg @ '':'' @ clientSecret cfg)) c])"
proof -
  from assms(2) have "\<not> nullish q" by (auto simp: nullish_def)
  with assms show ?thesis by (simp add: auth_callback_def Let_def buildBasicAuthHeader_strings)
qed

lemma run_snoc:
  "run env sess (evs @ [(r, net)]) =
     (case run env sess evs of (s1, rs) \<Rightarrow>
        (case handle env net r s1 of (resp, s2, calls) \<Rightarrow> (s2, rs @ [resp])))"
  by (induction evs arbitrary: sess) (auto split: prod.splits)

text \<open>
  C4. A login with a complete configuration stores exactly that configuration, whatever
  the session held and whatever requests came before: after a second login the stored
  configuration is the second one's. A callback whose token exchange succeeds stores
  exactly the data the provider returned as the session's tokens, whatever tokens were
  stored before. Each put changes that one key and nothing else.
\<close>

theorem session_put_overwrites:
  assumes "login_config env (js_or q (JObj [])) = Some cfg"
    and "clientId cfg \<noteq> [] \<and> clientSecret cfg \<noteq> [] \<and> redirectUri cfg \<noteq> []"
  shows "auth_login env net q sess = (Redirect 302 (authorize_url cfg), sess\<lparr>oauthConfig := Some cfg\<rparr>, [])
       \<and> oauthConfig (fst (run env sess (evs @ [(GetAuthLogin q, net)]))) = Some cfg
       \<and> oauthConfig (fst (run env sess [(GetAuthLogin q1, net1), (GetAuthLogin q, net)])) = Some cfg
       \<and> (oauthConfig sess = Some c \<and> js_truthy (js_get cq ''code'')
            \<and> js_to_string (js_get cq ''code'') = Some code
            \<and> axios_post net (callback_token_request c
                  (''Basic '' @ base64 (clientId c @ '':'' @ clientSecret c)) code) = Inr d
          \<longrightarrow> auth_callback env net cq sess
                = (callback_success, sess\<lparr>oauthTokens := d\<rparr>,
                   [callback_token_request c (''Basic '' @ base64 (clientId c @ '':'' @ clientSecret c)) code])
              \<and> oauthTokens (fst (run env sess [(GetAuthCallback cq, net)])) = d)"
proof -
  from assms have login:
    "auth_login env n q s = (Redirect 302 (authorize_url cfg), s\<lparr>oauthConfig := Some cfg\<rparr>, [])" for n s
    by (simp add: auth_login_complete)
  have after: "oauthConfig (fst (run env sess (es @ [(GetAuthLogin q, net)]))) = Some cfg" for es
    by (simp add: run_snoc login split: prod.splits)
  have twice: "oauthConfig (fst (run env sess [(GetAuthLogin q1, net1), (GetAuthLogin q, net)])) = Some cfg"
    using after [of "[(GetAuthLogin q1, net1)]"] by simp
  have cb: "oauthConfig sess = Some c \<and> js_truthy (js_get cq ''code'')
            \<and> js_to_string (js_get cq ''code'') = Some code
            \<and> axios_post net (callback_token_request c
                  (''Basic '' @ base64 (clientId c @ '':'' @ clientSecret c)) code) = Inr d
          \<longrightarrow> auth_callback env net cq sess
                = (callback_success, sess\<lparr>oauthTokens := d\<rparr>,
                   [callback_token_request c (''Basic '' @ base64 (clientId c @ '':'' @ clientSecret c)) code])
              \<and> oauthTokens (fst (run env sess [(GetAuthCallback cq, net)])) = d"
    by (simp add: auth_callback_success)
  from login [of net sess] after [of evs] twice cb show ?thesis by blast
qed

theorem session_put_overwrites_witness:
  "oauthConfig (fst (run env_unset new_session [(GetAuthLogin query_other, provider_ok)]))
     = Some \<lparr>clientId = ''first'', clientSecret = ''s1'', redirectUri = ''http://localhost:3000/cb'',
             scope = ''user:read''\<rparr>
   \<and> oauthConfig (fst (run env_unset new_session
        [(GetAuthLogin query_other, provider_ok), (GetAuthLogin query_abc, provider_ok)]))
     = Some config_abc
   \<and> oauthTokens session_stale = JObj [(''access_token'', JStr ''old'')]
   \<and> oauthTokens (fst (run env_unset session_stale [(GetAuthCallback query_code, provider_ok)]))
     = JObj [(''access_token'', JStr ''tok''), (''expires_in'', JNum ''3600'')]"
proof -
  have first: "oauthConfig (fst (run env_unset new_session [(GetAuthLogin query_other, provider_ok)]))
     = Some \<lparr>clientId = ''first'', clientSecret = ''s1'', redirectUri = ''http://localhost:3000/cb'',
             scope = ''user:read''\<rparr>"
    by code_simp
  have cfg: "login_config env_unset (js_or query_abc (JObj [])) = Some config_abc" by code_simp
  have complete: "clientId config_abc \<noteq> [] \<and> clientSecret config_abc \<noteq> [] \<and> redirectUri config_abc \<noteq> []"
    by (simp add: config_abc_def)
  have c: "oauthConfig session_stale = Some config_abc"
    and old: "oauthTokens session_stale = JObj [(''access_token'', JStr ''old'')]"
    by (simp_all add: session_stale_def)
  have code: "js_truthy (js_get query_code ''code'')" "js_to_string (js_get query_code ''code'') = Some ''c0de''"
    by (simp_all add: query_code_def)
  have ok: "axios_post provider_ok (callback_token_request config_abc
        (''Basic '' @ base64 (clientId config_abc @ '':'' @ clientSecret config_abc)) ''c0de'')
      = Inr (JObj [(''access_token'', JStr ''tok''), (''expires_in'', JNum ''3600'')])"
    by code_simp
  note t = session_put_overwrites [OF cfg complete, where ?q1.0 = query_other and ?net1.0 = provider_ok
      and net = provider_ok and sess = new_session]
  note u = session_put_overwrites [OF cfg complete, where net = provider_ok and sess = session_stale
      and c = config_abc and cq = query_code and code = "''c0de''"
      and d = "JObj [(''access_token'', JStr ''tok''), (''expires_in'', JNum ''3600'')]"]
  from t u first c old code ok show ?thesis by blast
qed

section \<open>The Basic authorization header\<close>

lemma authorization_simps:
  "authorization (s2s_token_request header account) = Some header"
  "authorization (callback_token_request cfg header code) = Some header"
  by (simp_all add: authorization_def s2s_token_request_def callback_token_request_def)

lemma is_token_call_simps:
  "is_token_call (s2s_token_request header account)"
  "is_token_call (callback_token_request cfg header code)"
  "\<not> is_token_call (s2s_meeting_request tok b)"
  "\<not> is_token_call (oauth_meeting_request tok b)"
  by (simp_all add: is_token_call_def token_endpoint_def s2s_token_request_def callback_token_request_def
        s2s_meeting_request_def oauth_meeting_request_def)

lemma buildBasicAuthHeader_Some:
  "buildBasicAuthHeader c s = Some header \<longleftrightarrow>
     (\<exists>i p. js_to_string c = Some i \<and> js_to_string s = Some p \<and> header = ''Basic '' @ base64 (i @ '':'' @ p))"
  by (auto simp: buildBasicAuthHeader_def split: option.splits)

lemma s2s_meetings_calls:
  assumes "s2s_meetings env net b sess = (resp, sess', calls)"
    and "s2s_credentials env (js_or b (JObj [])) = (c, s, a)"
  shows "calls = [] \<or> (\<exists>header account tok. a = JStr account \<and> buildBasicAuthHeader c s = Some header \<and>
           (calls = [s2s_token_request header account]
            \<or> calls = [s2s_token_request header account, s2s_meeting_request tok (js_or b (JObj []))]))"
  using assms
  by (auto simp: s2s_meetings_def Let_def split: if_splits jsval.splits sum.splits option.splits)

lemma auth_callback_calls:
  assumes "auth_callback env net q sess = (resp, sess', calls)"
  shows "calls = [] \<or> (\<exists>cfg c. oauthConfig sess = Some cfg \<and>
           calls = [callback_token_request cfg (''Basic '' @ base64 (clientId cfg @ '':'' @ clientSecret cfg)) c])"
  using assms by (cases rule: auth_callback_cases) auto

text \<open>
  C3. For strings, \<open>buildBasicAuthHeader\<close> gives "Basic " followed by the base64 of
  clientId, a colon and clientSecret. Whenever the machine-grant handler calls the
  provider, its first call is the token exchange and no later call is; that call's
  Authorization header is "Basic " followed by the base64 of the merged clientId, a colon
  and the merged clientSecret (as the template literal prints them). Whenever the
  callback calls the provider, its one call is the token exchange, with the header built
  the same way from the client id and secret stored at login.
\<close>

theorem token_exchange_basic_auth:
  "buildBasicAuthHeader (JStr cid) (JStr csecret) = Some (''Basic '' @ base64 (cid @ '':'' @ csecret))
   \<and> (s2s_meetings env net b sess = (resp, sess', calls) \<and> s2s_credentials env (js_or b (JObj [])) = (c, s, a)
        \<and> calls \<noteq> []
      \<longrightarrow> is_token_call (hd calls) \<and> (\<forall>rq \<in> set (tl calls). \<not> is_token_call rq)
          \<and> (\<exists>i p. js_to_string c = Some i \<and> js_to_string s = Some p
                \<and> authorization (hd calls) = Some (''Basic '' @ base64 (i @ '':'' @ p))))
   \<and> (auth_callback env net q sess = (resp, sess', calls) \<and> calls \<noteq> []
      \<longrightarrow> is_token_call (hd calls) \<and> tl calls = []
          \<and> (\<exists>cfg. oauthConfig sess = Some cfg
                \<and> authorization (hd calls) = Some (''Basic '' @ base64 (clientId cfg @ '':'' @ clientSecret cfg))))"
proof -
  have hdr: "buildBasicAuthHeader (JStr cid) (JStr csecret) = Some (''Basic '' @ base64 (cid @ '':'' @ csecret))"
    by (rule buildBasicAuthHeader_strings)
  have s2s: "is_token_call (hd calls) \<and> (\<forall>rq \<in> set (tl calls). \<not> is_token_call rq)
          \<and> (\<exists>i p. js_to_string c = Some i \<and> js_to_string s = Some p
                \<and> authorization (hd calls) = Some (''Basic '' @ base64 (i @ '':'' @ p)))"
    if "s2s_meetings env net b sess = (resp, sess', calls)" "s2s_credentials env (js_or b (JObj [])) = (c, s, a)"
       "calls \<noteq> []"
    using s2s_meetings_calls [OF that(1,2)] that(3)
    by (auto simp: is_token_call_simps authorization_simps buildBasicAuthHeader_Some)
  have cb: "is_token_call (hd calls) \<and> tl calls = []
          \<and> (\<exists>cfg. oauthConfig sess = Some cfg
                \<and> authorization (hd calls) = Some (''Basic '' @ base64 (clientId cfg @ '':'' @ clientSecret cfg)))"
    if "auth_callback env net q sess = (resp, sess', calls)" "calls \<noteq> []"
    using auth_callback_calls [OF that(1)] that(2)
    by (auto simp: is_token_call_simps authorization_simps)
  from hdr s2s cb show ?thesis by blast
qed

theorem token_exchange_basic_auth_witness:
  "s2s_meetings env_unset provider_ok body_abc new_session
     = (Json 200 (meeting_result ''s2s'' (JObj [(''id'', JNum ''123456789''), (''password'', JStr ''pw''),
                                   (''start_url'', JStr ''https://zoom.us/s/1''),
                                   (''join_url'', JStr ''https://zoom.us/j/1'')])),
        new_session,
        [s2s_token_request ''Basic YWJjOnh5eg=='' ''acct'', s2s_meeting_request ''tok'' body_abc])
   \<and> auth_callback env_unset provider_ok query_code session_stale
     = (callback_success, session_authenticated,
        [callback_token_request config_abc ''Basic YWJjOnh5eg=='' ''c0de''])
   \<and> (\<exists>i p. js_to_string (JStr ''abc'') = Some i \<and> js_to_string (JStr ''xyz'') = Some p
         \<and> authorization (s2s_token_request ''Basic YWJjOnh5eg=='' ''acct'')
             = Some (''Basic '' @ base64 (i @ '':'' @ p)))
   \<and> authorization (callback_token_request config_abc ''Basic YWJjOnh5eg=='' ''c0de'')
       = Some (''Basic '' @ base64 (''abc'' @ '':'' @ ''xyz''))"
proof -
  have h1: "s2s_meetings env_unset provider_ok body_abc new_session
     = (Json 200 (meeting_result ''s2s'' (JObj [(''id'', JNum ''123456789''), (''password'', JStr ''pw''),
                                   (''start_url'', JStr ''https://zoom.us/s/1''),
                                   (''join_url'', JStr ''https://zoom.us/j/1'')])),
        new_session,
        [s2s_token_request ''Basic YWJjOnh5eg=='' ''acct'', s2s_meeting_request ''tok'' body_abc])"
    by code_simp
  have h2: "s2s_credentials env_unset (js_or body_abc (JObj [])) = (JStr ''abc'', JStr ''xyz'', JStr ''acct'')"
    by code_simp
  have h3: "auth_callback env_unset provider_ok query_code session_stale
     = (callback_success, session_authenticated,
        [callback_token_request config_abc ''Basic YWJjOnh5eg=='' ''c0de''])"
    by code_simp
  have c: "oauthConfig session_stale = Some config_abc" by (simp add: session_stale_def)
  note t1 = token_exchange_basic_auth [where env = env_unset and net = provider_ok and b = body_abc
      and sess = new_session and c = "JStr ''abc''" and s = "JStr ''xyz''" and a = "JStr ''acct''"
      and calls = "[s2s_token_request ''Basic YWJjOnh5eg=='' ''acct'', s2s_meeting_request ''tok'' body_abc]"]
  note t2 = token_exchange_basic_auth [where env = env_unset and net = provider_ok and q = query_code
      and sess = session_stale and calls = "[callback_token_request config_abc ''Basic YWJjOnh5eg=='' ''c0de'']"]
  from t1 h1 h2 have a1: "\<exists>i p. js_to_string (JStr ''abc'') = Some i \<and> js_to_string (JStr ''xyz'') = Some p
         \<and> authorization (s2s_token_request ''Basic YWJjOnh5eg=='' ''acct'')
             = Some (''Basic '' @ base64 (i @ '':'' @ p))"
    by simp
  from t2 h3 c have a2: "authorization (callback_token_request config_abc ''Basic YWJjOnh5eg=='' ''c0de'')
       = Some (''Basic '' @ base64 (''abc'' @ '':'' @ ''xyz''))"
    by (simp add: config_abc_def)
  from h1 h3 a1 a2 show ?thesis by blast
qed

section \<open>Provider failures\<close>

text \<open>Which answers end an exchange at once, and what a followed redirect leads to.\<close>

lemma follow_final:
  "ans k = HttpResponse st hs d \<Longrightarrow> \<not> redirects st hs \<Longrightarrow> follow ans n k = HttpResponse st hs d"
  "ans k = NoResponse m \<Longrightarrow> follow ans n k = NoResponse m"
  by (cases n; simp)+

lemma exchange_final:
  "answer net rq 0 = HttpResponse st hs d \<Longrightarrow> \<not> redirects st hs \<or> maxRedirects net = 0 \<Longrightarrow>
   exchange net rq = HttpResponse st hs d"
  "answer net rq 0 = NoResponse m \<Longrightarrow> exchange net rq = NoResponse m"
  by (auto simp: exchange_def follow_final)


lemma exchange_redirected:
  "answer net rq 0 = HttpResponse st hs d \<Longrightarrow> redirects st hs \<Longrightarrow> maxRedirects net = Suc n \<Longrightarrow>
   exchange net rq = follow (answer net rq) n 1"
  by (simp add: exchange_def)

lemma axios_post_rejected:
  "exchange net rq = HttpResponse st hs d \<Longrightarrow> \<not> (200 \<le> st \<and> st < 300) \<Longrightarrow>
   axios_post net rq = Inl (JsError (Some (st, d)) (''Request failed with status code '' @ decimal st))"
  by (auto simp: axios_post_def)

lemma axios_post_no_response:
  "exchange net rq = NoResponse m \<Longrightarrow> axios_post net rq = Inl (JsError None m)"
  by (simp add: axios_post_def)

lemma err_rejected:
  "st \<noteq> 0 \<Longrightarrow> err_status (JsError (Some (st, d)) m) = st"
  "err_details (JsError (Some (st, d)) m) = (if js_truthy d then d else JStr m)"
  "err_status (JsError None m) = 500"
  "err_details (JsError None m) = JStr m"
  by (simp_all add: err_status_def err_details_def js_or_def)

text \<open>
  A redirect is not a rejection: the S2S handler, its token call answered 302 with a
  Location, goes on with what the redirect led to.
\<close>

lemma redirect_is_followed:
  "exchange provider_moved (s2s_token_request ''Basic YWJjOnh5eg=='' ''acct'')
     = HttpResponse 200 [] (JObj [(''access_token'', JStr ''tok''), (''id'', JNum ''1'')])"
  "fst (s2s_meetings env_unset provider_moved body_abc new_session)
     = Json 200 (meeting_result ''s2s'' (JObj [(''access_token'', JStr ''tok''), (''id'', JNum ''1'')]))"
  by code_simp+



lemma s2s_urls_differ: "s2s_token_request header account \<noteq> s2s_meeting_request tok b"
  by (simp add: s2s_token_request_def s2s_meeting_request_def)

lemma s2s_failing_call:
  assumes "s2s_meetings env net b sess = (resp, sess', calls)" "rq \<in> set calls" "axios_post net rq = Inl e"
  shows "resp = s2s_catch e \<and> last calls = rq \<and> distinct calls"
  using assms s2s_urls_differ
  by (auto simp: s2s_meetings_def Let_def split: if_splits jsval.splits sum.splits prod.splits option.splits)

lemma callback_failing_call:
  assumes "auth_callback env net q sess = (resp, sess', calls)" "rq \<in> set calls" "axios_post net rq = Inl e"
  shows "resp = callback_catch e \<and> last calls = rq \<and> distinct calls"
  using assms(1)
proof (cases rule: auth_callback_cases)
  case rejected
  with assms(2) show ?thesis by simp
next
  case (failed cfg c e')
  with assms(2,3) show ?thesis by simp
next
  case (stored cfg c d)
  with assms(2,3) show ?thesis by simp
qed

lemma oauth_failing_call:
  assumes "oauth_meetings env net b sess = (resp, sess', calls)" "rq \<in> set calls" "axios_post net rq = Inl e"
  shows "resp = oauth_catch e \<and> last calls = rq \<and> distinct calls"
  using assms
  by (auto simp: oauth_meetings_def Let_def split: if_splits sum.splits option.splits)

lemma login_no_calls:
  "auth_login env net q sess = (resp, sess', calls) \<Longrightarrow> calls = []"
  by (auto simp: auth_login_def Let_def split: if_splits option.splits)

lemma catch_carries:
  "status_of (s2s_catch e) = err_status e" "carries_details (s2s_catch e) (err_details e)"
  "status_of (callback_catch e) = err_status e" "carries_details (callback_catch e) (err_details e)"
  "status_of (oauth_catch e) = err_status e" "carries_details (oauth_catch e) (err_details e)"
  by (simp_all add: s2s_catch_def callback_catch_def oauth_catch_def)

lemma handle_failing_call:
  assumes "handle env net r sess = (resp, sess', calls)" "rq \<in> set calls" "axios_post net rq = Inl e"
  shows "status_of resp = err_status e \<and> carries_details resp (err_details e) \<and> last calls = rq \<and> distinct calls"
proof (cases r)
  case (PostS2SMeetings b)
  with assms s2s_failing_call [of env net b sess resp sess' calls rq e] show ?thesis
    by (simp add: catch_carries)
next
  case (GetAuthLogin q)
  with assms login_no_calls [of env net q sess resp sess' calls] show ?thesis by simp
next
  case (GetAuthCallback q)
  with assms callback_failing_call [of env net q sess resp sess' calls rq e] show ?thesis
    by (simp add: catch_carries)
next
  case (PostOAuthMeetings b)
  with assms oauth_failing_call [of env net b sess resp sess' calls rq e] show ?thesis
    by (simp add: catch_carries)
qed

text \<open>
  C5, as the code has it. Take any call a handler made to the provider. If the exchange
  ended in a response with a status from 300 up, the handler's response has that status
  and carries as details that response's body when the body is truthy, and otherwise the
  client library's message "Request failed with status code N"; the S2S and OAuth meeting
  handlers put the details under the key \<open>details\<close> of their JSON body, the callback
  appends them, stringified, to its text. If the exchange ended without a response, the
  handler's response has status 500 and carries the error's message. In both cases the
  failed call is the last call of the handler and no call was made twice: nothing is
  retried. An exchange ends in the provider's answer to the call itself unless that
  answer is a redirect the client follows (a status from 300 to 399 with a Location
  header, while the client follows redirects at all); no response to the call itself ends
  it without one.
\<close>

theorem provider_failure_propagation:
  assumes "handle env net r sess = (resp, sess', calls)" and "rq \<in> set calls"
  shows "(exchange net rq = HttpResponse st hs d \<and> 300 \<le> st \<and> st \<le> 999 \<longrightarrow>
            status_of resp = st
            \<and> carries_details resp (if js_truthy d then d else JStr (''Request failed with status code '' @ decimal st))
            \<and> last calls = rq \<and> distinct calls)
       \<and> (exchange net rq = NoResponse m \<longrightarrow>
            status_of resp = 500 \<and> carries_details resp (JStr m) \<and> last calls = rq \<and> distinct calls)
       \<and> (answer net rq 0 = HttpResponse st hs d \<and> (\<not> redirects st hs \<or> maxRedirects net = 0) \<longrightarrow>
            exchange net rq = HttpResponse st hs d)
       \<and> (answer net rq 0 = NoResponse m \<longrightarrow> exchange net rq = NoResponse m)"
proof -
  have a: "status_of resp = st
        \<and> carries_details resp (if js_truthy d then d else JStr (''Request failed with status code '' @ decimal st))
        \<and> last calls = rq \<and> distinct calls"
    if "exchange net rq = HttpResponse st hs d" "300 \<le> st"
  proof -
    define msg where "msg = ''Request failed with status code '' @ decimal st"
    from that have ax: "axios_post net rq = Inl (JsError (Some (st, d)) msg)"
      by (simp add: axios_post_rejected msg_def)
    from that(2) have "st \<noteq> 0" by simp
    then have s: "err_status (JsError (Some (st, d)) msg) = st"
      by (rule err_rejected(1))
    have dd: "err_details (JsError (Some (st, d)) msg) = (if js_truthy d then d else JStr msg)"
      by (rule err_rejected(2))
    from handle_failing_call [OF assms ax]
    have "status_of resp = st \<and> carries_details resp (if js_truthy d then d else JStr msg)
        \<and> last calls = rq \<and> distinct calls"
      by (simp only: s dd)
    then show ?thesis by (simp only: msg_def)
  qed
  have b: "status_of resp = 500 \<and> carries_details resp (JStr m) \<and> last calls = rq \<and> distinct calls"
    if "exchange net rq = NoResponse m"
  proof -
    from that have ax: "axios_post net rq = Inl (JsError None m)" by (simp add: axios_post_no_response)
    from handle_failing_call [OF assms ax] show ?thesis by (simp only: err_rejected(3,4))
  qed
  have c: "answer net rq 0 = HttpResponse st hs d \<and> (\<not> redirects st hs \<or> maxRedirects net = 0) \<longrightarrow>
            exchange net rq = HttpResponse st hs d"
    using exchange_final(1) [of net rq st hs d] by blast
  have d: "answer net rq 0 = NoResponse m \<longrightarrow> exchange net rq = NoResponse m"
    by (simp add: exchange_final)
  from a b c d show ?thesis by blast
qed

theorem provider_failure_propagation_witness:
  "handle env_unset provider_rejects (PostS2SMeetings body_abc) new_session
     = (Json 401 (JObj [(''error'', JStr ''Failed to create meeting via S2S''),
                        (''details'', JObj [(''code'', JNum ''124''), (''message'', JStr ''Invalid access token.'')])]),
        new_session, [s2s_token_request ''Basic YWJjOnh5eg=='' ''acct''])
   \<and> exchange provider_rejects (s2s_token_request ''Basic YWJjOnh5eg=='' ''acct'')
     = HttpResponse 401 [(''content-type'', ''application/json'')]
         (JObj [(''code'', JNum ''124''), (''message'', JStr ''Invalid access token.'')])
   \<and> status_of (Json 401 (JObj [(''error'', JStr ''Failed to create meeting via S2S''),
                        (''details'', JObj [(''code'', JNum ''124''), (''message'', JStr ''Invalid access token.'')])])) = 401
   \<and> handle env_unset provider_down (GetAuthCallback query_code) session_stale
     = (Send 500 (''OAuth callback error: '' @ JSON_stringify (JStr ''connect ECONNREFUSED 127.0.0.1:443'')),
        session_stale, [callback_token_request config_abc ''Basic YWJjOnh5eg=='' ''c0de''])
   \<and> exchange provider_down (callback_token_request config_abc ''Basic YWJjOnh5eg=='' ''c0de'')
     = NoResponse ''connect ECONNREFUSED 127.0.0.1:443''
   \<and> carries_details (Send 500 (''OAuth callback error: '' @ JSON_stringify (JStr ''connect ECONNREFUSED 127.0.0.1:443'')))
        (JStr ''connect ECONNREFUSED 127.0.0.1:443'')"
proof -
  have h1: "handle env_unset provider_rejects (PostS2SMeetings body_abc) new_session
     = (Json 401 (JObj [(''error'', JStr ''Failed to create meeting via S2S''),
                        (''details'', JObj [(''code'', JNum ''124''), (''message'', JStr ''Invalid access token.'')])]),
        new_session, [s2s_token_request ''Basic YWJjOnh5eg=='' ''acct''])"
    by code_simp
  have h2: "handle env_unset provider_down (GetAuthCallback query_code) session_stale
     = (Send 500 (''OAuth callback error: '' @ JSON_stringify (JStr ''connect ECONNREFUSED 127.0.0.1:443'')),
        session_stale, [callback_token_request config_abc ''Basic YWJjOnh5eg=='' ''c0de''])"
    by code_simp
  have m1: "s2s_token_request ''Basic YWJjOnh5eg=='' ''acct'' \<in> set [s2s_token_request ''Basic YWJjOnh5eg=='' ''acct'']"
    and m2: "callback_token_request config_abc ''Basic YWJjOnh5eg=='' ''c0de''
               \<in> set [callback_token_request config_abc ''Basic YWJjOnh5eg=='' ''c0de'']"
    by simp_all
  have n1: "answer provider_rejects (s2s_token_request ''Basic YWJjOnh5eg=='' ''acct'') 0
      = HttpResponse 401 [(''content-type'', ''application/json'')]
          (JObj [(''code'', JNum ''124''), (''message'', JStr ''Invalid access token.'')])"
    and r1: "\<not> redirects 401 [(''content-type'', ''application/json'')] \<or> maxRedirects provider_rejects = 0"
    and s1: "(300::nat) \<le> 401 \<and> (401::nat) \<le> 999"
    by (simp_all add: provider_rejects_def redirects_def)
  have n2: "answer provider_down (callback_token_request config_abc ''Basic YWJjOnh5eg=='' ''c0de'') 0
      = NoResponse ''connect ECONNREFUSED 127.0.0.1:443''"
    by (simp add: provider_down_def)
  note p1 = provider_failure_propagation [OF h1 m1, where st = 401
      and hs = "[(''content-type'', ''application/json'')]"
      and d = "JObj [(''code'', JNum ''124''), (''message'', JStr ''Invalid access token.'')]"]
  note p2 = provider_failure_propagation [OF h2 m2, where m = "''connect ECONNREFUSED 127.0.0.1:443''"]
  from p1 n1 r1 have e1: "exchange provider_rejects (s2s_token_request ''Basic YWJjOnh5eg=='' ''acct'')
     = HttpResponse 401 [(''content-type'', ''application/json'')]
         (JObj [(''code'', JNum ''124''), (''message'', JStr ''Invalid access token.'')])"
    by blast
  from p1 e1 s1 have a: "status_of (Json 401 (JObj [(''error'', JStr ''Failed to create meeting via S2S''),
                        (''details'', JObj [(''code'', JNum ''124''), (''message'', JStr ''Invalid access token.'')])])) = 401"
    by blast
  from p2 n2 have e2: "exchange provider_down (callback_token_request config_abc ''Basic YWJjOnh5eg=='' ''c0de'')
     = NoResponse ''connect ECONNREFUSED 127.0.0.1:443''"
    by blast
  from p2 e2 have b: "carries_details (Send 500 (''OAuth callback error: '' @ JSON_stringify (JStr ''connect ECONNREFUSED 127.0.0.1:443'')))
        (JStr ''connect ECONNREFUSED 127.0.0.1:443'')"
    by blast
  from h1 h2 e1 e2 a b show ?thesis by blast
qed

text \<open>
  C5, as stated, fails on an empty provider body: with 401 and an empty body answered to the
  token exchange of the machine grant, the details are the client library's message, not
  the (empty) body.
\<close>

theorem provider_body_not_always_in_details:
  "answer provider_rejects_empty (s2s_token_request ''Basic YWJjOnh5eg=='' ''acct'') 0 = HttpResponse 401 [] (JStr [])
   \<and> s2s_meetings env_unset provider_rejects_empty body_abc new_session
     = (Json 401 (JObj [(''error'', JStr ''Failed to create meeting via S2S''),
                        (''details'', JStr ''Request failed with status code 401'')]),
        new_session, [s2s_token_request ''Basic YWJjOnh5eg=='' ''acct''])
   \<and> \<not> carries_details (fst (s2s_meetings env_unset provider_rejects_empty body_abc new_session)) (JStr [])"
  by code_simp

section \<open>The login redirect\<close>

lemma login_setting_string:
  "s \<noteq> [] \<Longrightarrow> login_setting (JStr s) e d = Some s"
  by (simp add: login_setting_def js_or_def)

lemma login_setting_absent:
  "login_setting JUndefined e d = Some (case e of None \<Rightarrow> d | Some s \<Rightarrow> if s = [] then d else s)"
  by (simp add: login_setting_def js_or_def env_val_def split: option.splits)

lemma login_config_abc:
  assumes "js_get (JObj kvs) ''client_id'' = JStr ''abc''"
    and "js_get (JObj kvs) ''client_secret'' = JStr ''xyz''"
    and "js_get (JObj kvs) ''redirect_uri'' = JStr ''http://localhost:3000/auth/callback''"
    and "js_get (JObj kvs) ''scope'' = JUndefined"
  shows "login_config env (js_or (JObj kvs) (JObj [])) = Some (config_abc\<lparr>scope := configured_scope env\<rparr>)"
  using assms
  by (simp add: login_config_def js_or_def login_setting_string login_setting_absent config_abc_def
      configured_scope_def del: js_get.simps)

lemma authorize_url_abc:
  "authorize_url (config_abc\<lparr>scope := sc\<rparr>) =
     ''https://zoom.us/oauth/authorize?response_type=code&client_id=abc&redirect_uri=http%3A%2F%2Flocalhost%3A3000%2Fauth%2Fcallback&scope=''
       @ form_encode sc"
proof -
  have f: "form_encode ''response_type'' = ''response_type''" "form_encode ''code'' = ''code''"
    "form_encode ''client_id'' = ''client_id''" "form_encode ''abc'' = ''abc''"
    "form_encode ''redirect_uri'' = ''redirect_uri''" "form_encode ''scope'' = ''scope''"
    by code_simp+
  show ?thesis
    by (simp add: authorize_url_def authorize_params_def form_urlencoded_def config_abc_def f form_encode_ex)
qed

lemma form_encode_default_scope: "form_encode ''meeting:write'' = ''meeting%3Awrite''"
  by code_simp

text \<open>
  C7, as the code has it. A login whose query has client_id "abc", client_secret "xyz",
  redirect_uri "http://localhost:3000/auth/callback" and no scope answers 302 to the
  authorize URL with response_type=code, that client_id, that redirect_uri
  (form-encoded) and as scope the environment's ZOOM_OAUTH_SCOPE when that is set and
  non-empty, the default "meeting:write" otherwise; it stores that configuration and
  calls nobody. A login whose configuration, after the fallbacks, still lacks the client
  id, the client secret or the redirect URI answers 400 with the missing-config error,
  and neither redirects nor changes the session.
\<close>

theorem login_redirect:
  "(js_get (JObj kvs) ''client_id'' = JStr ''abc'' \<and> js_get (JObj kvs) ''client_secret'' = JStr ''xyz''
     \<and> js_get (JObj kvs) ''redirect_uri'' = JStr ''http://localhost:3000/auth/callback''
     \<and> js_get (JObj kvs) ''scope'' = JUndefined
    \<longrightarrow> auth_login env net (JObj kvs) sess
         = (Redirect 302
              (''https://zoom.us/oauth/authorize?response_type=code&client_id=abc&redirect_uri=http%3A%2F%2Flocalhost%3A3000%2Fauth%2Fcallback&scope=''
                 @ form_encode (configured_scope env)),
            sess\<lparr>oauthConfig := Some (config_abc\<lparr>scope := configured_scope env\<rparr>)\<rparr>, [])
       \<and> (ZOOM_OAUTH_SCOPE env = None \<or> ZOOM_OAUTH_SCOPE env = Some [] \<longrightarrow>
            fst (auth_login env net (JObj kvs) sess)
              = Redirect 302 ''https://zoom.us/oauth/authorize?response_type=code&client_id=abc&redirect_uri=http%3A%2F%2Flocalhost%3A3000%2Fauth%2Fcallback&scope=meeting%3Awrite''))
   \<and> (login_config env (js_or q (JObj [])) = Some cfg
       \<and> (clientId cfg = [] \<or> clientSecret cfg = [] \<or> redirectUri cfg = [])
    \<longrightarrow> auth_login env net q sess
         = (Json 400 (JObj [(''error'', JStr ''Missing OAuth config (client_id, client_secret, redirect_uri).'')]),
            sess, []))"
proof -
  have a: "auth_login env net (JObj kvs) sess
         = (Redirect 302
              (''https://zoom.us/oauth/authorize?response_type=code&client_id=abc&redirect_uri=http%3A%2F%2Flocalhost%3A3000%2Fauth%2Fcallback&scope=''
                 @ form_encode (configured_scope env)),
            sess\<lparr>oauthConfig := Some (config_abc\<lparr>scope := configured_scope env\<rparr>)\<rparr>, [])"
    if h: "js_get (JObj kvs) ''client_id'' = JStr ''abc''" "js_get (JObj kvs) ''client_secret'' = JStr ''xyz''"
     "js_get (JObj kvs) ''redirect_uri'' = JStr ''http://localhost:3000/auth/callback''"
     "js_get (JObj kvs) ''scope'' = JUndefined"
  proof -
    have "auth_login env net (JObj kvs) sess
         = (Redirect 302 (authorize_url (config_abc\<lparr>scope := configured_scope env\<rparr>)),
            sess\<lparr>oauthConfig := Some (config_abc\<lparr>scope := configured_scope env\<rparr>)\<rparr>, [])"
      by (rule auth_login_complete [OF login_config_abc [OF h]]) (simp_all add: config_abc_def)
    then show ?thesis by (simp only: authorize_url_abc)
  qed
  have d: "form_encode (configured_scope env) = ''meeting%3Awrite''"
    if "ZOOM_OAUTH_SCOPE env = None \<or> ZOOM_OAUTH_SCOPE env = Some []"
    using that by (auto simp: configured_scope_def form_encode_default_scope)
  have b: "auth_login env net q sess
         = (Json 400 (JObj [(''error'', JStr ''Missing OAuth config (client_id, client_secret, redirect_uri).'')]),
            sess, [])"
    if "login_config env (js_or q (JObj [])) = Some cfg"
       "clientId cfg = [] \<or> clientSecret cfg = [] \<or> redirectUri cfg = []"
    using auth_login_incomplete [OF that] by (simp add: login_missing_def)
  from a b d show ?thesis by auto
qed

theorem login_redirect_witness:
  "auth_login env_unset provider_ok query_abc new_session
     = (Redirect 302 ''https://zoom.us/oauth/authorize?response_type=code&client_id=abc&redirect_uri=http%3A%2F%2Flocalhost%3A3000%2Fauth%2Fcallback&scope=meeting%3Awrite'',
        new_session\<lparr>oauthConfig := Some config_abc\<rparr>, [])
   \<and> auth_login env_unset provider_ok query_code new_session
     = (Json 400 (JObj [(''error'', JStr ''Missing OAuth config (client_id, client_secret, redirect_uri).'')]),
        new_session, [])"
proof -
  have q: "js_get (JObj [(''client_id'', JStr ''abc''), (''client_secret'', JStr ''xyz''),
                     (''redirect_uri'', JStr ''http://localhost:3000/auth/callback'')]) ''client_id'' = JStr ''abc''
     \<and> js_get (JObj [(''client_id'', JStr ''abc''), (''client_secret'', JStr ''xyz''),
                     (''redirect_uri'', JStr ''http://localhost:3000/auth/callback'')]) ''client_secret'' = JStr ''xyz''
     \<and> js_get (JObj [(''client_id'', JStr ''abc''), (''client_secret'', JStr ''xyz''),
                     (''redirect_uri'', JStr ''http://localhost:3000/auth/callback'')]) ''redirect_uri''
         = JStr ''http://localhost:3000/auth/callback''
     \<and> js_get (JObj [(''client_id'', JStr ''abc''), (''client_secret'', JStr ''xyz''),
                     (''redirect_uri'', JStr ''http://localhost:3000/auth/callback'')]) ''scope'' = JUndefined"
    by simp
  have sc: "configured_scope env_unset = ''meeting:write''"
    by (simp add: env_unset_def configured_scope_def)
  have c: "login_config env_unset (js_or query_code (JObj []))
      = Some \<lparr>clientId = [], clientSecret = [], redirectUri = [], scope = ''meeting:write''\<rparr>"
    by code_simp
  note t = login_redirect [where env = env_unset and net = provider_ok and sess = new_session
      and q = query_code
      and kvs = "[(''client_id'', JStr ''abc''), (''client_secret'', JStr ''xyz''),
                  (''redirect_uri'', JStr ''http://localhost:3000/auth/callback'')]"
      and cfg = "\<lparr>clientId = [], clientSecret = [], redirectUri = [], scope = ''meeting:write''\<rparr>"]
  from t q have "auth_login env_unset provider_ok query_abc new_session
     = (Redirect 302
              (''https://zoom.us/oauth/authorize?response_type=code&client_id=abc&redirect_uri=http%3A%2F%2Flocalhost%3A3000%2Fauth%2Fcallback&scope=''
                 @ form_encode (configured_scope env_unset)),
            new_session\<lparr>oauthConfig := Some (config_abc\<lparr>scope := configured_scope env_unset\<rparr>)\<rparr>, [])"
    unfolding query_abc_def by blast
  then have a: "auth_login env_unset provider_ok query_abc new_session
     = (Redirect 302 ''https://zoom.us/oauth/authorize?response_type=code&client_id=abc&redirect_uri=http%3A%2F%2Flocalhost%3A3000%2Fauth%2Fcallback&scope=meeting%3Awrite'',
        new_session\<lparr>oauthConfig := Some config_abc\<rparr>, [])"
    by (simp add: sc form_encode_default_scope config_abc_def)
  from t c have b: "auth_login env_unset provider_ok query_code new_session
     = (Json 400 (JObj [(''error'', JStr ''Missing OAuth config (client_id, client_secret, redirect_uri).'')]),
        new_session, [])"
    by simp
  have e: "ZOOM_OAUTH_SCOPE env_unset = None \<or> ZOOM_OAUTH_SCOPE env_unset = Some []"
    by (simp add: env_unset_def)
  from t q e have "fst (auth_login env_unset provider_ok query_abc new_session)
     = Redirect 302 ''https://zoom.us/oauth/authorize?response_type=code&client_id=abc&redirect_uri=http%3A%2F%2Flocalhost%3A3000%2Fauth%2Fcallback&scope=meeting%3Awrite''"
    unfolding query_abc_def by blast
  with a b show ?thesis by blast
qed

text \<open>
  C7, as stated, fails when the environment sets a scope: the redirect then carries
  scope=user%3Aread and not the default.
\<close>

theorem login_scope_from_environment:
  "auth_login env_scoped provider_ok query_abc new_session
     = (Redirect 302 ''https://zoom.us/oauth/authorize?response_type=code&client_id=abc&redirect_uri=http%3A%2F%2Flocalhost%3A3000%2Fauth%2Fcallback&scope=user%3Aread'',
        new_session\<lparr>oauthConfig := Some (config_abc\<lparr>scope := ''user:read''\<rparr>)\<rparr>, [])
   \<and> (''scope'', ''meeting:write'') \<notin> set (authorize_params (config_abc\<lparr>scope := ''user:read''\<rparr>))"
  by code_simp

end
